theory Spec2Isabelle
  imports Main "HOL-Library.Sublist"
begin

section \<open>Data model of the repository lifecycle engine\<close>

text \<open>
  A Go \<open>error\<close> is modelled by its message; a nil error is \<open>None\<close>.
  \<open>diag.FromErr\<close> of a nil error is the nil diagnostics, so a lifecycle function
  returns \<open>error option\<close>.
\<close>

type_synonym error = string

datatype http_method = GET | PUT | POST | DELETE | HEAD

text \<open>
  A request as the engine builds it on \<open>Client.R()\<close>: the verb, the endpoint template,
  the path parameters, the body, and whether the merge-error retry condition was added.
  The retry loop itself runs inside the transport client: one request of the model is one
  logical call of the engine.
\<close>

record 'p request =
  Method :: http_method
  URL :: string
  PathParams :: "string \<rightharpoonup> string"
  Body :: "'p option"
  RetryOnMergeError :: bool

text \<open>
  A response carries its status code and, for \<open>SetResult\<close>, the decoded payload.
  A call of the transport returns a response pointer (nil is \<open>None\<close>) and an error.
\<close>

record 'p response =
  StatusCode :: int
  Result :: "'p option"

type_synonym 'p reply = "'p response option \<times> error option"

text \<open>
  The transport client and the remote server are outside the engine: the client is a
  function from the calls issued so far and the current request to the reply.
\<close>

type_synonym 'p client = "'p request list \<Rightarrow> 'p request \<Rightarrow> 'p reply"

record 'p ProvderMetadata =
  Client :: "'p client"
  ArtifactoryVersion :: string

text \<open>
  \<open>schema.ResourceData\<close>, restricted to what the engine touches: the identity and
  the string attributes, with their prior (state) and planned (configuration) values.
  An attribute that is not set reads as the empty string, the zero value.
\<close>

record ResourceData =
  Id :: string
  State :: "string \<rightharpoonup> string"
  Config :: "string \<rightharpoonup> string"

definition zero_string :: "string option \<Rightarrow> string" where
  "zero_string v = (case v of None \<Rightarrow> [] | Some s \<Rightarrow> s)"

definition GetChange :: "ResourceData \<Rightarrow> string \<Rightarrow> string \<times> string" where
  "GetChange d key = (zero_string (State d key), zero_string (Config d key))"

definition HasChange :: "ResourceData \<Rightarrow> string \<Rightarrow> bool" where
  "HasChange d key = (case GetChange d key of (old, new) \<Rightarrow> old \<noteq> new)"



definition SetId :: "string \<Rightarrow> ResourceData \<Rightarrow> ResourceData" where
  "SetId v d = d\<lparr>Id := v\<rparr>"

type_synonym 'p UnpackFunc = "ResourceData \<Rightarrow> 'p \<times> string \<times> error option"
type_synonym 'p PackFunc = "'p \<Rightarrow> ResourceData \<Rightarrow> ResourceData \<times> error option"
type_synonym 'p Constructor = "unit \<Rightarrow> 'p \<times> error option"

text \<open>
  A lifecycle function takes the resource data, the provider metadata and the calls
  issued so far; it returns the diagnostics, the resource data and the extended calls.
\<close>

type_synonym 'p outcome = "error option \<times> ResourceData \<times> 'p request list"
type_synonym 'p lifecycle =
  "ResourceData \<Rightarrow> 'p ProvderMetadata \<Rightarrow> 'p request list \<Rightarrow> 'p outcome"

definition execute :: "'p client \<Rightarrow> 'p request \<Rightarrow> 'p request list \<Rightarrow> 'p reply \<times> 'p request list" where
  "execute c rq tr = (c tr rq, tr @ [rq])"

section \<open>Constants\<close>

definition defaultProjectKey :: string where
  "defaultProjectKey = ''default''"

definition RepositoriesEndpoint :: string where
  "RepositoriesEndpoint = ''artifactory/api/repositories/{key}''"

definition StatusBadRequest :: int where
  "StatusBadRequest = 400"

definition StatusNotFound :: int where
  "StatusNotFound = 404"

section \<open>Create\<close>

definition create_request :: "'p \<Rightarrow> string \<Rightarrow> 'p request" where
  "create_request repo key =
     \<lparr>Method = PUT, URL = RepositoriesEndpoint, PathParams = [''key'' \<mapsto> key],
      Body = Some repo, RetryOnMergeError = True\<rparr>"

definition MkRepoCreate :: "'p UnpackFunc \<Rightarrow> 'p lifecycle \<Rightarrow> 'p lifecycle" where
  "MkRepoCreate unpack read d m tr =
     (case unpack d of
        (repo, key, Some err) \<Rightarrow> (Some err, d, tr)
      | (repo, key, None) \<Rightarrow>
          (case execute (Client m) (create_request repo key) tr of
             ((resp, Some err), tr') \<Rightarrow> (Some err, d, tr')
           | ((resp, None), tr') \<Rightarrow> read (SetId key d) m tr'))"

section \<open>Read\<close>

definition read_request :: "string \<Rightarrow> 'p request" where
  "read_request key =
     \<lparr>Method = GET, URL = RepositoriesEndpoint, PathParams = [''key'' \<mapsto> key],
      Body = None, RetryOnMergeError = False\<rparr>"

text \<open>\<open>SetResult(repo)\<close>: the payload the response decodes into, when it has one.\<close>

definition decode :: "'p response option \<Rightarrow> 'p \<Rightarrow> 'p" where
  "decode resp repo =
     (case resp of
        None \<Rightarrow> repo
      | Some r \<Rightarrow> (case Result r of None \<Rightarrow> repo | Some v \<Rightarrow> v))"

definition MkRepoRead :: "'p PackFunc \<Rightarrow> 'p Constructor \<Rightarrow> 'p lifecycle" where
  "MkRepoRead pack construct d m tr =
     (case construct () of
        (repo, Some err) \<Rightarrow> (Some err, d, tr)
      | (repo, None) \<Rightarrow>
          (case execute (Client m) (read_request (Id d)) tr of
             ((resp, Some err), tr') \<Rightarrow>
               (case resp of
                  Some r \<Rightarrow>
                    if StatusCode r = StatusBadRequest \<or> StatusCode r = StatusNotFound
                    then (None, SetId [] d, tr')
                    else (Some err, d, tr')
                | None \<Rightarrow> (Some err, d, tr'))
           | ((resp, None), tr') \<Rightarrow>
               (case pack (decode resp repo) d of (d', perr) \<Rightarrow> (perr, d', tr'))))"

section \<open>Update and project assignment\<close>

definition update_request :: "'p \<Rightarrow> string \<Rightarrow> 'p request" where
  "update_request repo key =
     \<lparr>Method = POST, URL = RepositoriesEndpoint, PathParams = [''key'' \<mapsto> key],
      Body = Some repo, RetryOnMergeError = True\<rparr>"

definition attach_request :: "string \<Rightarrow> string \<Rightarrow> 'p request" where
  "attach_request repoKey projectKey =
     \<lparr>Method = PUT,
      URL = ''access/api/v1/projects/_/attach/repositories/{repoKey}/{projectKey}'',
      PathParams = [''repoKey'' \<mapsto> repoKey, ''projectKey'' \<mapsto> projectKey],
      Body = None, RetryOnMergeError = False\<rparr>"

definition detach_request :: "string \<Rightarrow> 'p request" where
  "detach_request repoKey =
     \<lparr>Method = DELETE,
      URL = ''access/api/v1/projects/_/attach/repositories/{repoKey}'',
      PathParams = [''repoKey'' \<mapsto> repoKey],
      Body = None, RetryOnMergeError = False\<rparr>"

definition assignRepoToProject ::
  "string \<Rightarrow> string \<Rightarrow> 'p client \<Rightarrow> 'p request list \<Rightarrow> error option \<times> 'p request list" where
  "assignRepoToProject repoKey projectKey client tr =
     (case execute client (attach_request repoKey projectKey) tr of
        ((resp, err), tr') \<Rightarrow> (err, tr'))"

definition unassignRepoFromProject ::
  "string \<Rightarrow> 'p client \<Rightarrow> 'p request list \<Rightarrow> error option \<times> 'p request list" where
  "unassignRepoFromProject repoKey client tr =
     (case execute client (detach_request repoKey) tr of
        ((resp, err), tr') \<Rightarrow> (err, tr'))"

definition MkRepoUpdate :: "'p UnpackFunc \<Rightarrow> 'p lifecycle \<Rightarrow> 'p lifecycle" where
  "MkRepoUpdate unpack read d m tr =
     (case unpack d of
        (repo, key, Some err) \<Rightarrow> (Some err, d, tr)
      | (repo, key, None) \<Rightarrow>
          (case execute (Client m) (update_request repo (Id d)) tr of
             ((resp, Some err), tr1) \<Rightarrow> (Some err, d, tr1)
           | ((resp, None), tr1) \<Rightarrow>
               (let d1 = SetId key d;
                    projectKeyChanged = HasChange d1 ''project_key''
                in if projectKeyChanged then
                     (case GetChange d1 ''project_key'' of
                        (oldProjectKey, newProjectKey) \<Rightarrow>
                          (let assignToProject =
                                 (oldProjectKey = defaultProjectKey \<and> length newProjectKey > 0);
                               unassignFromProject =
                                 (length oldProjectKey > 0 \<and> newProjectKey = defaultProjectKey)
                           in case (if assignToProject
                                    then assignRepoToProject key newProjectKey (Client m) tr1
                                    else if unassignFromProject
                                    then unassignRepoFromProject key (Client m) tr1
                                    else (None, tr1)) of
                                (Some err, tr2) \<Rightarrow> (Some err, d1, tr2)
                              | (None, tr2) \<Rightarrow> read d1 m tr2))
                   else read d1 m tr1)))"

section \<open>Delete\<close>

definition delete_request :: "string \<Rightarrow> 'p request" where
  "delete_request key =
     \<lparr>Method = DELETE, URL = RepositoriesEndpoint, PathParams = [''key'' \<mapsto> key],
      Body = None, RetryOnMergeError = True\<rparr>"

definition DeleteRepo :: "'p lifecycle" where
  "DeleteRepo d m tr =
     (case execute (Client m) (delete_request (Id d)) tr of
        ((resp, err), tr') \<Rightarrow>
          if err \<noteq> None \<and>
             (case resp of
                None \<Rightarrow> False
              | Some r \<Rightarrow> StatusCode r = StatusBadRequest \<or> StatusCode r = StatusNotFound)
          then (None, SetId [] d, tr')
          else (err, d, tr'))"

text \<open>The resource a schema, a packer, an unpacker and a constructor make.\<close>

record 'p Resource =
  CreateContext :: "'p lifecycle"
  ReadContext :: "'p lifecycle"
  UpdateContext :: "'p lifecycle"
  DeleteContext :: "'p lifecycle"

definition MkResourceSchema :: "'p PackFunc \<Rightarrow> 'p UnpackFunc \<Rightarrow> 'p Constructor \<Rightarrow> 'p Resource" where
  "MkResourceSchema packer unpack constructor =
     (let reader = MkRepoRead packer constructor
      in \<lparr>CreateContext = MkRepoCreate unpack reader,
          ReadContext = reader,
          UpdateContext = MkRepoUpdate unpack reader,
          DeleteContext = DeleteRepo\<rparr>)"

section \<open>Repository key validation\<close>

text \<open>
  The validators of the SDK's \<open>validation\<close> package, on a string value \<open>v\<close> of the
  attribute \<open>k\<close>; each returns its list of errors. The regular expression of
  \<open>StringDoesNotMatch\<close> is given by the predicate that says which strings it matches.
\<close>

type_synonym SchemaValidateFunc = "string \<Rightarrow> string \<Rightarrow> error list"

definition StringDoesNotMatch :: "(string \<Rightarrow> bool) \<Rightarrow> string \<Rightarrow> SchemaValidateFunc" where
  "StringDoesNotMatch MatchString message v k =
     (if MatchString v then [''invalid value for '' @ k @ '' ('' @ message @ '')''] else [])"

definition ContainsAny :: "string \<Rightarrow> string \<Rightarrow> bool" where
  "ContainsAny v chars = list_ex (\<lambda>c. c \<in> set chars) v"

text \<open>The verb \<open>%q\<close> on a string of printable ASCII characters.\<close>

definition Sprintf_q :: "string \<Rightarrow> string" where
  "Sprintf_q s =
     [CHR 0x22] @
     concat (map (\<lambda>c. if c = CHR 0x22 \<or> c = CHR 0x5C then [CHR 0x5C, c] else [c]) s) @
     [CHR 0x22]"

definition StringDoesNotContainAny :: "string \<Rightarrow> SchemaValidateFunc" where
  "StringDoesNotContainAny chars v k =
     (if ContainsAny v chars
      then [''expected value of '' @ k @ '' to not contain any of '' @ Sprintf_q chars @
            '', got '' @ v]
      else [])"

definition All_validators :: "SchemaValidateFunc list \<Rightarrow> SchemaValidateFunc" where
  "All_validators validators v k = concat (map (\<lambda>validator. validator v k) validators)"

text \<open>The expression \<open>^[0-9].*\<close>: a string matches when its first character is a digit.\<close>

definition leading_digit :: "string \<Rightarrow> bool" where
  "leading_digit v = (case v of [] \<Rightarrow> False | c # cs \<Rightarrow> c \<in> set ''0123456789'')"

definition special_characters :: string where
  "special_characters = '' !@#$%^&*()+={}[]:;<>,/?~`|'' @ [CHR 0x5C]"

definition RepoKeyValidator :: SchemaValidateFunc where
  "RepoKeyValidator =
     All_validators
       [StringDoesNotMatch leading_digit ''repo key cannot start with a number'',
        StringDoesNotContainAny special_characters]"

section \<open>Resetting a field with a value that does not exist\<close>





section \<open>Project environments\<close>

text \<open>
  \<open>schema.ResourceDiff\<close>, restricted to its set attributes: each is the list of distinct
  elements that \<open>Set.List()\<close> gives. \<open>GetOk\<close> is false for an attribute that is not set
  and for the empty set.
\<close>

record ResourceDiff =
  Sets :: "string \<rightharpoonup> string list"

definition GetOk_set :: "ResourceDiff \<Rightarrow> string \<Rightarrow> string list \<times> bool" where
  "GetOk_set diff key =
     (case Sets diff key of None \<Rightarrow> ([], False) | Some xs \<Rightarrow> (xs, xs \<noteq> []))"

text \<open>The schema of \<open>project_environments\<close> in \<open>BaseRepoSchema\<close>: \<open>MaxItems: 2\<close>.\<close>

definition project_environments_MaxItems :: nat where
  "project_environments_MaxItems = 2"

definition ProjectEnvironmentsSupported :: "string list" where
  "ProjectEnvironmentsSupported = [''DEV'', ''PROD'']"

definition CustomProjectEnvironmentSupportedVersion :: string where
  "CustomProjectEnvironmentSupportedVersion = ''7.53.1''"

text \<open>The loop over the environments before 7.53.1: the first one not allowed is the error.\<close>

fun check_environments :: "string list \<Rightarrow> error option" where
  "check_environments [] = None"
| "check_environments (projectEnvironment # rest) =
     (if projectEnvironment \<notin> set ProjectEnvironmentsSupported
      then Some (''project_environment '' @ projectEnvironment @ '' not allowed'')
      else check_environments rest)"

text \<open>
  \<open>CheckVersion\<close> belongs to the shared utilities: given the server's version and the
  version to compare with, it says whether the first is at or after the second, or
  fails when a version does not parse. It is a parameter of the model.
\<close>

type_synonym CheckVersionFunc = "string \<Rightarrow> string \<Rightarrow> bool \<times> error option"

definition ProjectEnvironmentsDiff ::
  "CheckVersionFunc \<Rightarrow> ResourceDiff \<Rightarrow> 'p ProvderMetadata \<Rightarrow> error option" where
  "ProjectEnvironmentsDiff CheckVersion diff meta =
     (case GetOk_set diff ''project_environments'' of
        (projectEnvironments, ok) \<Rightarrow>
          if ok then
            (case CheckVersion (ArtifactoryVersion meta) CustomProjectEnvironmentSupportedVersion of
               (isSupported, Some err) \<Rightarrow> Some (''Failed to check version '' @ err)
             | (isSupported, None) \<Rightarrow>
                 if isSupported then
                   (if length projectEnvironments = 2
                    then Some (''For Artifactory '' @ CustomProjectEnvironmentSupportedVersion @
                               '' or later, only one environment can be assigned to a repository.'')
                    else None)
                 else check_environments projectEnvironments)
          else None)"

section \<open>Default repository layout\<close>

record SupportedRepoClasses =
  RepoLayoutRef :: string
  SupportedRepoTypes :: "string \<rightharpoonup> bool"

text \<open>
  The table \<open>defaultRepoLayoutMap\<close> is a parameter. Reading a package type that the
  table does not have gives the zero value, whose map of repository types is empty.
\<close>

definition zero_SupportedRepoClasses :: SupportedRepoClasses where
  "zero_SupportedRepoClasses = \<lparr>RepoLayoutRef = [], SupportedRepoTypes = Map.empty\<rparr>"

definition GetDefaultRepoLayoutRef ::
  "(string \<rightharpoonup> SupportedRepoClasses) \<Rightarrow> string \<Rightarrow> string \<Rightarrow> unit \<Rightarrow> error + string" where
  "GetDefaultRepoLayoutRef defaultRepoLayoutMap repositoryType packageType u =
     (let entry = (case defaultRepoLayoutMap packageType of
                     None \<Rightarrow> zero_SupportedRepoClasses
                   | Some c \<Rightarrow> c)
      in case SupportedRepoTypes entry repositoryType of
           Some True \<Rightarrow> Inr (RepoLayoutRef entry)
         | Some False \<Rightarrow>
             Inl (''default repo layout not found for repository type '' @ repositoryType @
                  '' & package type '' @ packageType)
         | None \<Rightarrow>
             Inl (''default repo layout not found for repository type '' @ repositoryType @
                  '' & package type '' @ packageType))"

section \<open>Observations on the calls issued\<close>

definition is_attach :: "'p request \<Rightarrow> bool" where
  "is_attach rq =
     (Method rq = PUT \<and>
      URL rq = ''access/api/v1/projects/_/attach/repositories/{repoKey}/{projectKey}'')"

definition is_detach :: "'p request \<Rightarrow> bool" where
  "is_detach rq =
     (Method rq = DELETE \<and>
      URL rq = ''access/api/v1/projects/_/attach/repositories/{repoKey}'')"

text \<open>A reply that the engine reads as "the resource is absent".\<close>

definition absent :: "'p response option \<Rightarrow> bool" where
  "absent resp = (\<exists>r. resp = Some r \<and> (StatusCode r = 400 \<or> StatusCode r = 404))"

text \<open>
  The last call issued is the GET of a Read on \<open>key\<close>, and the reply the client gave
  to it, on the calls before it, is an error that the engine reads as "absent".
\<close>

definition final_read_absent :: "'p client \<Rightarrow> string \<Rightarrow> 'p request list \<Rightarrow> bool" where
  "final_read_absent c key tr =
     (tr \<noteq> [] \<and> last tr = read_request key \<and>
      snd (c (butlast tr) (read_request key)) \<noteq> None \<and>
      absent (fst (c (butlast tr) (read_request key))))"

section \<open>Sample inputs\<close>

text \<open>
  A repository \<open>libs-local\<close> with a string payload, an unpacker that takes the key from
  the declaration, a packer that stores nothing, and transport clients that answer every
  call with 200, or the calls of one verb with an error status.
\<close>

definition sample_data :: "string \<Rightarrow> string \<Rightarrow> ResourceData" where
  "sample_data old new =
     \<lparr>Id = ''libs-local'',
      State = [''key'' \<mapsto> ''libs-local'', ''project_key'' \<mapsto> old],
      Config = [''key'' \<mapsto> ''libs-local'', ''project_key'' \<mapsto> new]\<rparr>"

text \<open>The same repository under a stored identity that is not its key.\<close>

definition renamed_data :: ResourceData where
  "renamed_data = (sample_data [] [])\<lparr>Id := ''old-id''\<rparr>"

definition sample_unpack :: "string UnpackFunc" where
  "sample_unpack d = (''{rclass: local}'', zero_string (Config d ''key''), None)"

definition failing_unpack :: "string UnpackFunc" where
  "failing_unpack d = ([], [], Some ''unsupported package type'')"

definition sample_pack :: "string PackFunc" where
  "sample_pack repo d = (d, None)"

definition sample_construct :: "string Constructor" where
  "sample_construct u = (''{}'', None)"

definition ok_reply :: "string reply" where
  "ok_reply = (Some \<lparr>StatusCode = 200, Result = None\<rparr>, None)"

definition error_reply :: "int \<Rightarrow> string reply" where
  "error_reply status = (Some \<lparr>StatusCode = status, Result = None\<rparr>, Some ''request failed'')"

definition ok_client :: "string client" where
  "ok_client tr rq = ok_reply"

definition failing_client :: "http_method \<Rightarrow> int \<Rightarrow> string client" where
  "failing_client verb status tr rq = (if Method rq = verb then error_reply status else ok_reply)"

definition sample_meta :: "string client \<Rightarrow> string ProvderMetadata" where
  "sample_meta c = \<lparr>Client = c, ArtifactoryVersion = ''7.49.8''\<rparr>"

text \<open>
  What the version comparison of the shared utilities answers on three server versions.
\<close>

definition sample_CheckVersion :: CheckVersionFunc where
  "sample_CheckVersion v supported =
     (if v = ''7.59.9'' \<or> v = ''7.53.1'' then (True, None)
      else if v = ''7.49.8'' then (False, None)
      else (False, Some (''could not parse version '' @ v)))"

definition sample_diff :: "string list \<Rightarrow> ResourceDiff" where
  "sample_diff environments = \<lparr>Sets = [''project_environments'' \<mapsto> environments]\<rparr>"

definition sample_layouts :: "string \<rightharpoonup> SupportedRepoClasses" where
  "sample_layouts =
     [''maven'' \<mapsto> \<lparr>RepoLayoutRef = ''maven-2-default'',
                    SupportedRepoTypes = [''local'' \<mapsto> True, ''remote'' \<mapsto> True]\<rparr>,
      ''npm'' \<mapsto> \<lparr>RepoLayoutRef = ''npm-default'',
                  SupportedRepoTypes = [''local'' \<mapsto> True, ''federated'' \<mapsto> False]\<rparr>]"

section \<open>Basic facts\<close>

lemmas sample_defs = sample_data_def sample_unpack_def sample_pack_def sample_construct_def
  ok_reply_def error_reply_def ok_client_def failing_client_def sample_meta_def zero_string_def

lemma GetChange_SetId [simp]: "GetChange (SetId k d) key = GetChange d key"
  by (simp add: GetChange_def SetId_def)

lemma HasChange_SetId [simp]: "HasChange (SetId k d) key = HasChange d key"
  by (simp add: HasChange_def)

lemma not_project_call [simp]:
  "\<not> is_attach (read_request k)" "\<not> is_detach (read_request k)"
  "\<not> is_attach (update_request repo k)" "\<not> is_detach (update_request repo k)"
  "is_attach (attach_request k p)" "\<not> is_detach (attach_request k p)"
  "\<not> is_attach (detach_request k)" "is_detach (detach_request k)"
  by (simp_all add: is_attach_def is_detach_def read_request_def update_request_def
      attach_request_def detach_request_def RepositoriesEndpoint_def)

lemma MkRepoRead_calls:
  "snd (snd (MkRepoRead pack construct d m tr)) = tr \<or>
   snd (snd (MkRepoRead pack construct d m tr)) = tr @ [read_request (Id d)]"
  by (simp add: MkRepoRead_def execute_def split: prod.splits option.splits)

lemma MkRepoRead_no_project_calls:
  "\<exists>rs. snd (snd (MkRepoRead pack construct d m tr)) = tr @ rs \<and>
        filter is_attach rs = [] \<and> filter is_detach rs = []"
  using MkRepoRead_calls [of pack construct d m tr] 
  by (metis append_Nil2 filter.simps not_project_call(1,2))

lemma Id_SetId [simp]: "Id (SetId k d) = k"
  by (simp add: SetId_def)

lemma final_read_absent_snoc:
  "final_read_absent c key (t @ [read_request key]) =
     (snd (c t (read_request key)) \<noteq> None \<and> absent (fst (c t (read_request key))))"
  by (simp add: final_read_absent_def)

lemma final_read_absent_other:
  assumes "t \<noteq> []" and "Method (last t) \<noteq> GET"
  shows "\<not> final_read_absent c key t"
proof
  assume "final_read_absent c key t"
  then have "last t = read_request key" by (simp add: final_read_absent_def)
  then have "Method (last t) = GET" by (simp add: read_request_def)
  with assms show False by simp
qed

lemma MkRepoRead_Id_final:
  assumes pk: "\<And>p x. Id (fst (pack p x)) = Id x"
      and t0: "t0 \<noteq> []" "Method (last t0) \<noteq> GET"
  shows "Id (fst (snd (MkRepoRead pack construct x m t0))) =
           (if final_read_absent (Client m) (Id x) (snd (snd (MkRepoRead pack construct x m t0)))
            then [] else Id x)"
proof (cases "construct ()")
  case (Pair repo cerr)
  show ?thesis
  proof (cases cerr)
    case (Some e)
    with Pair have "MkRepoRead pack construct x m t0 = (Some e, x, t0)"
      by (simp add: MkRepoRead_def)
    with final_read_absent_other [OF t0] show ?thesis by simp
  next
    case None
    obtain resp err where rep: "Client m t0 (read_request (Id x)) = (resp, err)"
      by (cases "Client m t0 (read_request (Id x))")
    show ?thesis
    proof (cases err)
      case None
      obtain d' perr where p: "pack (decode resp repo) x = (d', perr)"
        by (cases "pack (decode resp repo) x")
      from pk [of "decode resp repo" x] p have "Id d' = Id x" by simp
      with Pair \<open>cerr = None\<close> rep None p show ?thesis
        by (simp add: MkRepoRead_def execute_def final_read_absent_snoc)
    next
      case (Some e)
      with Pair \<open>cerr = None\<close> rep show ?thesis
        by (cases resp)
           (auto simp add: MkRepoRead_def execute_def absent_def final_read_absent_snoc
              StatusBadRequest_def StatusNotFound_def)
    qed
  qed
qed

lemma project_call_outcome:
  "(if a then assignRepoToProject key new c t
    else if u then unassignRepoFromProject key c t
    else (None, t)) = (err, t2) \<Longrightarrow> t \<noteq> [] \<Longrightarrow> Method (last t) \<noteq> GET \<Longrightarrow>
   t2 \<noteq> [] \<and> Method (last t2) \<noteq> GET"
  by (auto simp add: assignRepoToProject_def unassignRepoFromProject_def execute_def
      attach_request_def detach_request_def split: if_splits prod.splits)

lemma MkRepoUpdate_written:
  assumes unp: "unpack d = (repo, key, None)"
      and wr: "snd (Client m tr (update_request repo (Id d))) = None"
  shows "(\<exists>e t0. MkRepoUpdate unpack read d m tr = (Some e, SetId key d, t0) \<and>
                 t0 \<noteq> [] \<and> Method (last t0) \<noteq> GET) \<or>
         (\<exists>t0. MkRepoUpdate unpack read d m tr = read (SetId key d) m t0 \<and>
               t0 \<noteq> [] \<and> Method (last t0) \<noteq> GET)"
proof -
  let ?t1 = "tr @ [update_request repo (Id d)]"
  obtain resp where rep: "Client m tr (update_request repo (Id d)) = (resp, None)"
    using wr by (cases "Client m tr (update_request repo (Id d))") simp
  have t1: "?t1 \<noteq> []" "Method (last ?t1) \<noteq> GET"
    by (simp_all add: update_request_def)
  show ?thesis
  proof (cases "HasChange d ''project_key''")
    case False
    with unp rep have "MkRepoUpdate unpack read d m tr = read (SetId key d) m ?t1"
      by (simp add: MkRepoUpdate_def execute_def)
    with t1 show ?thesis by blast
  next
    case True
    obtain old new where on: "GetChange d ''project_key'' = (old, new)"
      by (cases "GetChange d ''project_key''")
    let ?call = "if old = defaultProjectKey \<and> length new > 0
                 then assignRepoToProject key new (Client m) ?t1
                 else if length old > 0 \<and> new = defaultProjectKey
                 then unassignRepoFromProject key (Client m) ?t1
                 else (None, ?t1)"
    obtain err t2 where c: "?call = (err, t2)" by (cases ?call)
    from project_call_outcome [OF c t1] have t2: "t2 \<noteq> []" "Method (last t2) \<noteq> GET"
      by simp_all
    have u: "MkRepoUpdate unpack read d m tr =
               (case ?call of (Some e, t) \<Rightarrow> (Some e, SetId key d, t)
                            | (None, t) \<Rightarrow> read (SetId key d) m t)"
      using unp rep True on by (auto simp add: MkRepoUpdate_def execute_def Let_def HasChange_def)
    show ?thesis
    proof (cases err)
      case None
      with u c have "MkRepoUpdate unpack read d m tr = read (SetId key d) m t2" by simp
      with t2 show ?thesis by blast
    next
      case (Some e)
      with u c have "MkRepoUpdate unpack read d m tr = (Some e, SetId key d, t2)" by simp
      with t2 show ?thesis by blast
    qed
  qed
qed

lemma MkRepoUpdate_not_written:
  assumes unp: "unpack d = (repo, key, uerr)"
      and nw: "uerr \<noteq> None \<or> snd (Client m tr (update_request repo (Id d))) \<noteq> None"
  shows "fst (snd (MkRepoUpdate unpack read d m tr)) = d"
  using unp nw
  by (cases "Client m tr (update_request repo (Id d))")
     (auto simp add: MkRepoUpdate_def execute_def split: option.splits)

lemma MkRepoCreate_not_written:
  assumes unp: "unpack d = (repo, key, uerr)"
      and nw: "uerr \<noteq> None \<or> snd (Client m tr (create_request repo key)) \<noteq> None"
  shows "fst (snd (MkRepoCreate unpack read d m tr)) = d"
  using unp nw
  by (cases "Client m tr (create_request repo key)")
     (auto simp add: MkRepoCreate_def execute_def split: option.splits)

lemma MkRepoCreate_outcomes:
  assumes unp: "unpack d = (repo, key, None)"
      and wr: "snd (Client m tr (create_request repo key)) = None"
  shows "MkRepoCreate unpack read d m tr = read (SetId key d) m (tr @ [create_request repo key])"
  using unp wr
  by (auto simp add: MkRepoCreate_def execute_def split: option.splits prod.splits)

section \<open>Update: the project calls\<close>

lemma project_calls_built:
  assumes unp: "unpack d = (repo, key, None)"
      and wr: "snd (Client m tr (update_request repo (Id d))) = None"
      and ch: "HasChange d ''project_key''"
      and oldnew: "GetChange d ''project_key'' = (old, new)"
  shows "\<exists>rest. snd (snd (MkRepoUpdate unpack (MkRepoRead pack construct) d m tr))
                  = tr @ update_request repo (Id d) # rest \<and>
           filter is_attach rest =
             (if old = ''default'' \<and> new \<noteq> [] then [attach_request key new] else []) \<and>
           filter is_detach rest =
             (if old \<noteq> [] \<and> new = ''default'' then [detach_request key] else [])"
proof -
  let ?tr1 = "tr @ [update_request repo (Id d)]"
  let ?d1 = "SetId key d"
  from ch oldnew have neq: "old \<noteq> new" by (simp add: HasChange_def)
  obtain resp where rep: "Client m tr (update_request repo (Id d)) = (resp, None)"
    using wr by (cases "Client m tr (update_request repo (Id d))") simp
  consider (assign) "old = ''default''" "new \<noteq> []"
    | (unassign) "\<not> (old = ''default'' \<and> new \<noteq> [])" "old \<noteq> []" "new = ''default''"
    | (neither) "\<not> (old = ''default'' \<and> new \<noteq> [])" "\<not> (old \<noteq> [] \<and> new = ''default'')"
    by blast
  then show ?thesis
  proof cases
    case assign
    let ?tr2 = "?tr1 @ [attach_request key new]"
    obtain resp2 err2 where a: "Client m ?tr1 (attach_request key new) = (resp2, err2)"
      by (cases "Client m ?tr1 (attach_request key new)") 
    from assign neq have nd: "new \<noteq> ''default''" by auto
    show ?thesis
    proof (cases err2)
      case None
      obtain rs where rs: "snd (snd (MkRepoRead pack construct ?d1 m ?tr2)) = ?tr2 @ rs"
        "filter is_attach rs = []" "filter is_detach rs = []"
        using MkRepoRead_no_project_calls by blast
      have "snd (snd (MkRepoUpdate unpack (MkRepoRead pack construct) d m tr)) = ?tr2 @ rs"
        using unp rep ch oldnew assign a None rs(1)
        by (simp add: MkRepoUpdate_def execute_def assignRepoToProject_def defaultProjectKey_def)
      with rs(2,3) assign nd show ?thesis by simp
    next
      case (Some e)
      have "snd (snd (MkRepoUpdate unpack (MkRepoRead pack construct) d m tr)) = ?tr2"
        using unp rep ch oldnew assign a Some
        by (simp add: MkRepoUpdate_def execute_def assignRepoToProject_def defaultProjectKey_def)
      with assign nd show ?thesis by simp
    qed
  next
    case unassign
    let ?tr2 = "?tr1 @ [detach_request key]"
    obtain resp2 err2 where a: "Client m ?tr1 (detach_request key) = (resp2, err2)"
      by (cases "Client m ?tr1 (detach_request key)") 
    show ?thesis
    proof (cases err2)
      case None
      obtain rs where rs: "snd (snd (MkRepoRead pack construct ?d1 m ?tr2)) = ?tr2 @ rs"
        "filter is_attach rs = []" "filter is_detach rs = []"
        using MkRepoRead_no_project_calls by blast
      have "snd (snd (MkRepoUpdate unpack (MkRepoRead pack construct) d m tr)) = ?tr2 @ rs"
        using unp rep ch oldnew unassign a None rs(1)
        by (simp add: MkRepoUpdate_def execute_def unassignRepoFromProject_def defaultProjectKey_def)
      with rs(2,3) unassign show ?thesis by simp
    next
      case (Some e)
      have "snd (snd (MkRepoUpdate unpack (MkRepoRead pack construct) d m tr)) = ?tr2"
        using unp rep ch oldnew unassign a Some
        by (simp add: MkRepoUpdate_def execute_def unassignRepoFromProject_def defaultProjectKey_def)
      with unassign show ?thesis by simp
    qed
  next
    case neither
    obtain rs where rs: "snd (snd (MkRepoRead pack construct ?d1 m ?tr1)) = ?tr1 @ rs"
      "filter is_attach rs = []" "filter is_detach rs = []"
      using MkRepoRead_no_project_calls by blast
    have "snd (snd (MkRepoUpdate unpack (MkRepoRead pack construct) d m tr)) = ?tr1 @ rs"
      using unp rep ch oldnew neither rs(1)
      by (auto simp add: MkRepoUpdate_def execute_def defaultProjectKey_def Let_def)
    with rs(2,3) neither show ?thesis by simp
  qed
qed

text \<open>
  C1. Take an Update, with the Read that \<open>MkResourceSchema\<close> gives it, whose declaration
  unpacks, whose main write (the POST) returns no error, and in which \<open>project_key\<close>
  has changed from \<open>old\<close> to \<open>new\<close>. The calls it issues start with the main write.
  Among the calls after it there is exactly one attach call, a PUT whose path parameters
  are exactly repoKey, bound to the key from Unpack, and projectKey, bound to \<open>new\<close>,
  when \<open>old\<close> is "default" and \<open>new\<close> is not empty, and no attach call otherwise;
  there is exactly one detach call, a DELETE whose only path parameter is repoKey, bound
  to the key from Unpack, when \<open>old\<close> is not empty and \<open>new\<close> is "default", and no
  detach call otherwise. So a change from one project to another issues neither.
\<close>

theorem MkRepoUpdate_project_calls:
  assumes unp: "unpack d = (repo, key, None)"
      and wr: "snd (Client m tr (update_request repo (Id d))) = None"
      and ch: "HasChange d ''project_key''"
      and oldnew: "GetChange d ''project_key'' = (old, new)"
  shows "\<exists>rest. snd (snd (MkRepoUpdate unpack (MkRepoRead pack construct) d m tr))
                  = tr @ update_request repo (Id d) # rest \<and>
           filter is_attach rest =
             (if old = ''default'' \<and> new \<noteq> []
              then [\<lparr>Method = PUT,
                 URL = ''access/api/v1/projects/_/attach/repositories/{repoKey}/{projectKey}'',
                 PathParams = [''repoKey'' \<mapsto> key, ''projectKey'' \<mapsto> new],
                 Body = None, RetryOnMergeError = False\<rparr>]
              else []) \<and>
           filter is_detach rest =
             (if old \<noteq> [] \<and> new = ''default''
              then [\<lparr>Method = DELETE,
                 URL = ''access/api/v1/projects/_/attach/repositories/{repoKey}'',
                 PathParams = [''repoKey'' \<mapsto> key],
                 Body = None, RetryOnMergeError = False\<rparr>]
              else [])"
  using project_calls_built
    [where unpack = unpack and pack = pack and construct = construct, OF unp wr ch oldnew]
  unfolding attach_request_def detach_request_def .

theorem MkRepoUpdate_project_calls_witness:
  "sample_unpack (sample_data ''default'' ''teama'') = (''{rclass: local}'', ''libs-local'', None) \<and>
   snd (Client (sample_meta ok_client) []
          (update_request ''{rclass: local}'' (Id (sample_data ''default'' ''teama'')))) = None \<and>
   HasChange (sample_data ''default'' ''teama'') ''project_key'' \<and>
   GetChange (sample_data ''default'' ''teama'') ''project_key'' = (''default'', ''teama'') \<and>
   (\<exists>rest. snd (snd (MkRepoUpdate sample_unpack (MkRepoRead sample_pack sample_construct)
                       (sample_data ''default'' ''teama'') (sample_meta ok_client) []))
              = [] @ update_request ''{rclass: local}'' (Id (sample_data ''default'' ''teama'')) # rest \<and>
            filter is_attach rest = [\<lparr>Method = PUT,
                 URL = ''access/api/v1/projects/_/attach/repositories/{repoKey}/{projectKey}'',
                 PathParams = [''repoKey'' \<mapsto> ''libs-local'', ''projectKey'' \<mapsto> ''teama''],
                 Body = None, RetryOnMergeError = False\<rparr>] \<and>
            filter is_detach rest = []) \<and>
   (\<exists>rest. snd (snd (MkRepoUpdate sample_unpack (MkRepoRead sample_pack sample_construct)
                       (sample_data ''teama'' ''default'') (sample_meta ok_client) []))
              = [] @ update_request ''{rclass: local}'' (Id (sample_data ''teama'' ''default'')) # rest \<and>
            filter is_attach rest = [] \<and>
            filter is_detach rest = [\<lparr>Method = DELETE,
                 URL = ''access/api/v1/projects/_/attach/repositories/{repoKey}'',
                 PathParams = [''repoKey'' \<mapsto> ''libs-local''],
                 Body = None, RetryOnMergeError = False\<rparr>]) \<and>
   (\<exists>rest. snd (snd (MkRepoUpdate sample_unpack (MkRepoRead sample_pack sample_construct)
                       (sample_data ''teama'' ''teamb'') (sample_meta ok_client) []))
              = [] @ update_request ''{rclass: local}'' (Id (sample_data ''teama'' ''teamb'')) # rest \<and>
            filter is_attach rest = [] \<and>
            filter is_detach rest = [])"
proof -
  have h1: "sample_unpack (sample_data old new) = (''{rclass: local}'', ''libs-local'', None)"
    for old new
    by (simp add: sample_defs)
  have h2: "snd (Client (sample_meta ok_client) []
          (update_request ''{rclass: local}'' (Id (sample_data old new)))) = None"
    for old new
    by (simp add: sample_defs)
  have h4: "GetChange (sample_data old new) ''project_key'' = (old, new)" for old new
    by (simp add: sample_defs GetChange_def)
  have h3: "HasChange (sample_data old new) ''project_key''" if "old \<noteq> new" for old new
    using that by (simp add: HasChange_def h4)
  have a: "HasChange (sample_data ''default'' ''teama'') ''project_key''"
    by (rule h3) simp
  have b: "HasChange (sample_data ''teama'' ''default'') ''project_key''"
    by (rule h3) simp
  have c: "HasChange (sample_data ''teama'' ''teamb'') ''project_key''"
    by (rule h3) simp
  from MkRepoUpdate_project_calls
    [where unpack = sample_unpack and d = "sample_data ''default'' ''teama''"
       and m = "sample_meta ok_client" and tr = "[]"
       and pack = sample_pack and construct = sample_construct, OF h1 h2 a h4]
  have 1: "\<exists>rest. snd (snd (MkRepoUpdate sample_unpack (MkRepoRead sample_pack sample_construct)
                       (sample_data ''default'' ''teama'') (sample_meta ok_client) []))
              = [] @ update_request ''{rclass: local}'' (Id (sample_data ''default'' ''teama'')) # rest \<and>
            filter is_attach rest = [\<lparr>Method = PUT,
                 URL = ''access/api/v1/projects/_/attach/repositories/{repoKey}/{projectKey}'',
                 PathParams = [''repoKey'' \<mapsto> ''libs-local'', ''projectKey'' \<mapsto> ''teama''],
                 Body = None, RetryOnMergeError = False\<rparr>] \<and>
            filter is_detach rest = []"
    by simp
  from MkRepoUpdate_project_calls
    [where unpack = sample_unpack and d = "sample_data ''teama'' ''default''"
       and m = "sample_meta ok_client" and tr = "[]"
       and pack = sample_pack and construct = sample_construct, OF h1 h2 b h4]
  have 2: "\<exists>rest. snd (snd (MkRepoUpdate sample_unpack (MkRepoRead sample_pack sample_construct)
                       (sample_data ''teama'' ''default'') (sample_meta ok_client) []))
              = [] @ update_request ''{rclass: local}'' (Id (sample_data ''teama'' ''default'')) # rest \<and>
            filter is_attach rest = [] \<and>
            filter is_detach rest = [\<lparr>Method = DELETE,
                 URL = ''access/api/v1/projects/_/attach/repositories/{repoKey}'',
                 PathParams = [''repoKey'' \<mapsto> ''libs-local''],
                 Body = None, RetryOnMergeError = False\<rparr>]"
    by simp
  from MkRepoUpdate_project_calls
    [where unpack = sample_unpack and d = "sample_data ''teama'' ''teamb''"
       and m = "sample_meta ok_client" and tr = "[]"
       and pack = sample_pack and construct = sample_construct, OF h1 h2 c h4]
  have 3: "\<exists>rest. snd (snd (MkRepoUpdate sample_unpack (MkRepoRead sample_pack sample_construct)
                       (sample_data ''teama'' ''teamb'') (sample_meta ok_client) []))
              = [] @ update_request ''{rclass: local}'' (Id (sample_data ''teama'' ''teamb'')) # rest \<and>
            filter is_attach rest = [] \<and>
            filter is_detach rest = []"
    by simp
  from h1 [of "''default''" "''teama''"] h2 [of "''default''" "''teama''"] a
    h4 [of "''default''" "''teama''"] 1 2 3
  show ?thesis by (intro conjI)
qed

section \<open>Read: the resource is absent\<close>

text \<open>
  C2. Take a Read whose constructor succeeds and whose GET returns an error. When the
  error comes with a response of status 400 or 404, Read sets the identity to the empty
  string and returns no error, the same for both codes. For every other error (another
  status, or no response at all) Read returns that error and leaves the resource data,
  its identity included, as it was. (The engine looks at the status only when the
  transport reports an error, which it does for the error statuses.)
\<close>

theorem MkRepoRead_absent_or_error:
  assumes con: "construct () = (repo, None)"
      and rep: "Client m tr (read_request (Id d)) = (resp, Some err)"
  shows "MkRepoRead pack construct d m tr =
           (if absent resp
            then (None, d\<lparr>Id := []\<rparr>, tr @ [read_request (Id d)])
            else (Some err, d, tr @ [read_request (Id d)]))"
proof (cases resp)
  case None
  with con rep show ?thesis
    by (simp add: MkRepoRead_def execute_def absent_def)
next
  case (Some r)
  with con rep show ?thesis
    by (simp add: MkRepoRead_def execute_def absent_def SetId_def
        StatusBadRequest_def StatusNotFound_def)
qed

theorem MkRepoRead_absent_or_error_witness:
  "sample_construct () = (''{}'', None) \<and>
   Client (sample_meta (failing_client GET 404)) [] (read_request (Id (sample_data [] [])))
     = (Some \<lparr>StatusCode = 404, Result = None\<rparr>, Some ''request failed'') \<and>
   MkRepoRead sample_pack sample_construct (sample_data [] []) (sample_meta (failing_client GET 404)) []
     = (None, (sample_data [] [])\<lparr>Id := []\<rparr>, [read_request ''libs-local'']) \<and>
   MkRepoRead sample_pack sample_construct (sample_data [] []) (sample_meta (failing_client GET 400)) []
     = (None, (sample_data [] [])\<lparr>Id := []\<rparr>, [read_request ''libs-local'']) \<and>
   MkRepoRead sample_pack sample_construct (sample_data [] []) (sample_meta (failing_client GET 503)) []
     = (Some ''request failed'', sample_data [] [], [read_request ''libs-local''])"
proof -
  have c: "sample_construct () = (''{}'', None)"
    by (simp add: sample_construct_def)
  have r: "Client (sample_meta (failing_client GET s)) [] (read_request (Id (sample_data [] [])))
     = (Some \<lparr>StatusCode = s, Result = None\<rparr>, Some ''request failed'')" for s
    by (simp add: sample_meta_def failing_client_def read_request_def error_reply_def)
  have i: "Id (sample_data [] []) = ''libs-local''"
    by (simp add: sample_data_def)
  show ?thesis
    using c r [of 404]
      MkRepoRead_absent_or_error
        [where construct = sample_construct and pack = sample_pack and tr = "[]"
           and d = "sample_data [] []" and m = "sample_meta (failing_client GET 404)",
         OF c r [of 404]]
      MkRepoRead_absent_or_error
        [where construct = sample_construct and pack = sample_pack and tr = "[]"
           and d = "sample_data [] []" and m = "sample_meta (failing_client GET 400)",
         OF c r [of 400]]
      MkRepoRead_absent_or_error
        [where construct = sample_construct and pack = sample_pack and tr = "[]"
           and d = "sample_data [] []" and m = "sample_meta (failing_client GET 503)",
         OF c r [of 503]]
    by (simp add: absent_def i)
qed

section \<open>The identity through the lifecycle\<close>

text \<open>
  The claim that Update never changes the identity and that the function Delete clears
  it whenever it completes fails: an Update whose final Read gets a 404 leaves the
  identity empty, and \<open>DeleteRepo\<close> returns from a DELETE call that succeeds with the
  identity \<open>libs-local\<close> still in the resource data.
\<close>

theorem identity_counterexample:
  "MkRepoUpdate sample_unpack (MkRepoRead sample_pack sample_construct)
      (sample_data ''default'' ''default'') (sample_meta (failing_client GET 404)) []
     = (None, (sample_data ''default'' ''default'')\<lparr>Id := []\<rparr>,
        [update_request ''{rclass: local}'' ''libs-local'', read_request ''libs-local'']) \<and>
   Id (sample_data ''default'' ''default'') = ''libs-local'' \<and>
   DeleteRepo (sample_data ''default'' ''default'') (sample_meta ok_client) []
     = (None, sample_data ''default'' ''default'', [delete_request ''libs-local''])"
  by (simp add: MkRepoUpdate_def MkRepoRead_def DeleteRepo_def execute_def sample_defs
      HasChange_def GetChange_def SetId_def update_request_def read_request_def
      delete_request_def StatusBadRequest_def StatusNotFound_def)

text \<open>
  C3, as the code has it. The packer does not touch the identity. Update leaves the
  resource data as it was when Unpack or the POST fails. Once both succeed it sets the
  identity to the key that Unpack returns, and the identity after Update is that key,
  unless the last call of Update is the GET of its final Read and that GET failed with
  status 400 or 404: then the identity is empty. Create does the same with its PUT. So
  Update and Create both set the identity, and when Unpack returns the stored identity
  Update leaves the identity as it found it, unless its final Read finds the resource
  absent. Delete clears the identity and returns no error when the DELETE call fails
  with status 400 or 404; in every other case, a DELETE call that succeeds included, it
  returns what the call returned and leaves the resource data, its identity included,
  as it was (the calling framework drops the state of a resource whose Delete returned
  no error).
\<close>

theorem identity_lifecycle:
  assumes pk: "\<And>p x. Id (fst (pack p x)) = Id x"
      and unp: "unpack d = (repo, key, uerr)"
  shows "(uerr \<noteq> None \<or> snd (Client m tr (update_request repo (Id d))) \<noteq> None \<longrightarrow>
            fst (snd (MkRepoUpdate unpack (MkRepoRead pack construct) d m tr)) = d) \<and>
         (uerr = None \<and> snd (Client m tr (update_request repo (Id d))) = None \<longrightarrow>
            Id (fst (snd (MkRepoUpdate unpack (MkRepoRead pack construct) d m tr))) =
              (if final_read_absent (Client m) key
                    (snd (snd (MkRepoUpdate unpack (MkRepoRead pack construct) d m tr)))
               then [] else key)) \<and>
         (uerr \<noteq> None \<or> snd (Client m tr (create_request repo key)) \<noteq> None \<longrightarrow>
            fst (snd (MkRepoCreate unpack (MkRepoRead pack construct) d m tr)) = d) \<and>
         (uerr = None \<and> snd (Client m tr (create_request repo key)) = None \<longrightarrow>
            Id (fst (snd (MkRepoCreate unpack (MkRepoRead pack construct) d m tr))) =
              (if final_read_absent (Client m) key
                    (snd (snd (MkRepoCreate unpack (MkRepoRead pack construct) d m tr)))
               then [] else key)) \<and>
         (snd (Client m' tr' (delete_request (Id d'))) \<noteq> None \<and>
          absent (fst (Client m' tr' (delete_request (Id d')))) \<longrightarrow>
            fst (DeleteRepo d' m' tr') = None \<and>
            fst (snd (DeleteRepo d' m' tr')) = d'\<lparr>Id := []\<rparr>) \<and>
         (\<not> (snd (Client m' tr' (delete_request (Id d'))) \<noteq> None \<and>
             absent (fst (Client m' tr' (delete_request (Id d'))))) \<longrightarrow>
            fst (DeleteRepo d' m' tr') = snd (Client m' tr' (delete_request (Id d'))) \<and>
            fst (snd (DeleteRepo d' m' tr')) = d')"
proof (intro conjI impI)
  assume "uerr \<noteq> None \<or> snd (Client m tr (update_request repo (Id d))) \<noteq> None"
  with unp show "fst (snd (MkRepoUpdate unpack (MkRepoRead pack construct) d m tr)) = d"
    by (rule MkRepoUpdate_not_written)
next
  let ?u = "MkRepoUpdate unpack (MkRepoRead pack construct) d m tr"
  assume a: "uerr = None \<and> snd (Client m tr (update_request repo (Id d))) = None"
  with unp have unp': "unpack d = (repo, key, None)" by simp
  from a have wr: "snd (Client m tr (update_request repo (Id d))) = None" by simp
  from MkRepoUpdate_written
    [where unpack = unpack and d = d and read = "MkRepoRead pack construct", OF unp' wr]
  consider (failed) e t0 where "?u = (Some e, SetId key d, t0)" "t0 \<noteq> []" "Method (last t0) \<noteq> GET"
    | (read) t0 where "?u = MkRepoRead pack construct (SetId key d) m t0"
        "t0 \<noteq> []" "Method (last t0) \<noteq> GET"
    by blast
  then show "Id (fst (snd ?u)) = (if final_read_absent (Client m) key (snd (snd ?u)) then [] else key)"
  proof cases
    case failed
    with final_read_absent_other [of t0 "Client m" key] show ?thesis by simp
  next
    case read
    from MkRepoRead_Id_final [of pack t0 construct "SetId key d" m, OF pk read(2,3)] read(1)
    show ?thesis by simp
  qed
next
  assume "uerr \<noteq> None \<or> snd (Client m tr (create_request repo key)) \<noteq> None"
  with unp show "fst (snd (MkRepoCreate unpack (MkRepoRead pack construct) d m tr)) = d"
    by (rule MkRepoCreate_not_written)
next
  let ?c = "MkRepoCreate unpack (MkRepoRead pack construct) d m tr"
  let ?t0 = "tr @ [create_request repo key]"
  assume a: "uerr = None \<and> snd (Client m tr (create_request repo key)) = None"
  with unp have c: "?c = MkRepoRead pack construct (SetId key d) m ?t0"
    by (simp add: MkRepoCreate_outcomes)
  have t0: "?t0 \<noteq> []" "Method (last ?t0) \<noteq> GET"
    by (simp_all add: create_request_def)
  from MkRepoRead_Id_final [of pack ?t0 construct "SetId key d" m, OF pk t0] c
  show "Id (fst (snd ?c)) = (if final_read_absent (Client m) key (snd (snd ?c)) then [] else key)"
    by simp
next
  assume a: "snd (Client m' tr' (delete_request (Id d'))) \<noteq> None \<and>
          absent (fst (Client m' tr' (delete_request (Id d'))))"
  then show "fst (DeleteRepo d' m' tr') = None"
    by (cases "Client m' tr' (delete_request (Id d'))")
       (auto simp add: DeleteRepo_def execute_def absent_def
          StatusBadRequest_def StatusNotFound_def)
  from a show "fst (snd (DeleteRepo d' m' tr')) = d'\<lparr>Id := []\<rparr>"
    by (cases "Client m' tr' (delete_request (Id d'))")
       (auto simp add: DeleteRepo_def execute_def absent_def SetId_def
          StatusBadRequest_def StatusNotFound_def)
next
  assume a: "\<not> (snd (Client m' tr' (delete_request (Id d'))) \<noteq> None \<and>
          absent (fst (Client m' tr' (delete_request (Id d')))))"
  then show "fst (DeleteRepo d' m' tr') = snd (Client m' tr' (delete_request (Id d')))"
    by (cases "Client m' tr' (delete_request (Id d'))")
       (auto simp add: DeleteRepo_def execute_def absent_def
          StatusBadRequest_def StatusNotFound_def split: option.splits)
  from a show "fst (snd (DeleteRepo d' m' tr')) = d'"
    by (cases "Client m' tr' (delete_request (Id d'))")
       (auto simp add: DeleteRepo_def execute_def absent_def
          StatusBadRequest_def StatusNotFound_def split: option.splits)
qed

theorem identity_lifecycle_witness:
  "(\<forall>p x. Id (fst (sample_pack p x)) = Id x) \<and>
   sample_unpack renamed_data = (''{rclass: local}'', ''libs-local'', None) \<and>
   Id renamed_data = ''old-id'' \<and>
   snd (Client (sample_meta ok_client) [] (update_request ''{rclass: local}'' (Id renamed_data))) = None \<and>
   Id (fst (snd (MkRepoUpdate sample_unpack (MkRepoRead sample_pack sample_construct)
                   renamed_data (sample_meta ok_client) []))) = ''libs-local'' \<and>
   final_read_absent (Client (sample_meta (failing_client GET 404))) ''libs-local''
     (snd (snd (MkRepoUpdate sample_unpack (MkRepoRead sample_pack sample_construct)
                  renamed_data (sample_meta (failing_client GET 404)) []))) \<and>
   Id (fst (snd (MkRepoUpdate sample_unpack (MkRepoRead sample_pack sample_construct)
                   renamed_data (sample_meta (failing_client GET 404)) []))) = [] \<and>
   snd (Client (sample_meta (failing_client POST 500)) []
          (update_request ''{rclass: local}'' (Id renamed_data))) \<noteq> None \<and>
   fst (snd (MkRepoUpdate sample_unpack (MkRepoRead sample_pack sample_construct)
               renamed_data (sample_meta (failing_client POST 500)) [])) = renamed_data \<and>
   Id (fst (snd (MkRepoCreate sample_unpack (MkRepoRead sample_pack sample_construct)
                   renamed_data (sample_meta ok_client) []))) = ''libs-local'' \<and>
   Id (fst (snd (MkRepoCreate sample_unpack (MkRepoRead sample_pack sample_construct)
                   renamed_data (sample_meta (failing_client GET 404)) []))) = [] \<and>
   fst (snd (MkRepoCreate sample_unpack (MkRepoRead sample_pack sample_construct)
               renamed_data (sample_meta (failing_client PUT 500)) [])) = renamed_data \<and>
   fst (DeleteRepo renamed_data (sample_meta (failing_client DELETE 404)) []) = None \<and>
   fst (snd (DeleteRepo renamed_data (sample_meta (failing_client DELETE 404)) []))
     = renamed_data\<lparr>Id := []\<rparr> \<and>
   fst (DeleteRepo renamed_data (sample_meta ok_client) []) = None \<and>
   fst (snd (DeleteRepo renamed_data (sample_meta ok_client) [])) = renamed_data"
proof -
  have pk: "Id (fst (sample_pack p x)) = Id x" for p x
    by (simp add: sample_pack_def)
  have unp: "sample_unpack renamed_data = (''{rclass: local}'', ''libs-local'', None)"
    by (simp add: sample_defs renamed_data_def)
  have i: "Id renamed_data = ''old-id''"
    by (simp add: renamed_data_def)
  note defs = sample_defs update_request_def create_request_def delete_request_def
    read_request_def absent_def
  note t = identity_lifecycle
    [where pack = sample_pack and unpack = sample_unpack and d = renamed_data
       and construct = sample_construct and tr = "[]" and tr' = "[]" and d' = renamed_data,
     OF pk unp]
  have wr: "snd (Client (sample_meta ok_client) [] (update_request ''{rclass: local}'' (Id renamed_data))) = None"
    "snd (Client (sample_meta ok_client) [] (create_request ''{rclass: local}'' ''libs-local'')) = None"
    "snd (Client (sample_meta (failing_client GET 404)) []
            (update_request ''{rclass: local}'' (Id renamed_data))) = None"
    "snd (Client (sample_meta (failing_client GET 404)) []
            (create_request ''{rclass: local}'' ''libs-local'')) = None"
    by (simp_all add: defs)
  have nw: "snd (Client (sample_meta (failing_client POST 500)) []
          (update_request ''{rclass: local}'' (Id renamed_data))) \<noteq> None"
    "snd (Client (sample_meta (failing_client PUT 500)) []
          (create_request ''{rclass: local}'' ''libs-local'')) \<noteq> None"
    by (simp_all add: defs)
  have tr_ok: "snd (snd (MkRepoUpdate sample_unpack (MkRepoRead sample_pack sample_construct)
                  renamed_data (sample_meta c) [])) =
               [update_request ''{rclass: local}'' ''old-id'', read_request ''libs-local'']"
            "snd (snd (MkRepoCreate sample_unpack (MkRepoRead sample_pack sample_construct)
                  renamed_data (sample_meta c) [])) =
               [create_request ''{rclass: local}'' ''libs-local'', read_request ''libs-local'']"
    if "c = ok_client \<or> c = failing_client GET 404" for c
    using that
    by (auto simp add: MkRepoUpdate_def MkRepoCreate_def MkRepoRead_def execute_def defs
        renamed_data_def HasChange_def GetChange_def SetId_def
        StatusBadRequest_def StatusNotFound_def)
  have fa: "final_read_absent (Client (sample_meta (failing_client GET 404))) ''libs-local''
              [rq, read_request ''libs-local'']"
       "\<not> final_read_absent (Client (sample_meta ok_client)) ''libs-local''
              [rq, read_request ''libs-local'']" for rq :: "string request"
    by (simp_all add: final_read_absent_def defs)
  have del: "snd (Client (sample_meta (failing_client DELETE 404)) []
                 (delete_request (Id renamed_data))) \<noteq> None \<and>
             absent (fst (Client (sample_meta (failing_client DELETE 404)) []
                 (delete_request (Id renamed_data))))"
       "snd (Client (sample_meta ok_client) [] (delete_request (Id renamed_data))) = None"
    by (simp_all add: defs)
  from t [where m = "sample_meta ok_client" and m' = "sample_meta (failing_client DELETE 404)"]
    wr tr_ok fa del
  have 1: "Id (fst (snd (MkRepoUpdate sample_unpack (MkRepoRead sample_pack sample_construct)
                   renamed_data (sample_meta ok_client) []))) = ''libs-local''"
    "Id (fst (snd (MkRepoCreate sample_unpack (MkRepoRead sample_pack sample_construct)
                   renamed_data (sample_meta ok_client) []))) = ''libs-local''"
    "fst (DeleteRepo renamed_data (sample_meta (failing_client DELETE 404)) []) = None"
    "fst (snd (DeleteRepo renamed_data (sample_meta (failing_client DELETE 404)) []))
       = renamed_data\<lparr>Id := []\<rparr>"
    by simp_all
  from t [where m = "sample_meta (failing_client GET 404)" and m' = "sample_meta ok_client"]
    wr tr_ok fa del
  have 2: "Id (fst (snd (MkRepoUpdate sample_unpack (MkRepoRead sample_pack sample_construct)
                   renamed_data (sample_meta (failing_client GET 404)) []))) = []"
    "Id (fst (snd (MkRepoCreate sample_unpack (MkRepoRead sample_pack sample_construct)
                   renamed_data (sample_meta (failing_client GET 404)) []))) = []"
    "fst (DeleteRepo renamed_data (sample_meta ok_client) []) = None"
    "fst (snd (DeleteRepo renamed_data (sample_meta ok_client) [])) = renamed_data"
    by simp_all
  from t [where m = "sample_meta (failing_client POST 500)" and m' = "sample_meta ok_client"] nw
  have 3: "fst (snd (MkRepoUpdate sample_unpack (MkRepoRead sample_pack sample_construct)
               renamed_data (sample_meta (failing_client POST 500)) [])) = renamed_data"
    by simp
  from t [where m = "sample_meta (failing_client PUT 500)" and m' = "sample_meta ok_client"] nw
  have 4: "fst (snd (MkRepoCreate sample_unpack (MkRepoRead sample_pack sample_construct)
               renamed_data (sample_meta (failing_client PUT 500)) [])) = renamed_data"
    by simp
  have 5: "final_read_absent (Client (sample_meta (failing_client GET 404))) ''libs-local''
     (snd (snd (MkRepoUpdate sample_unpack (MkRepoRead sample_pack sample_construct)
                  renamed_data (sample_meta (failing_client GET 404)) [])))"
    using tr_ok fa by simp
  from pk unp i wr(1) nw(1) 1 2 3 4 5 show ?thesis by (intro conjI allI)
qed

section \<open>Repository key validation: the length\<close>

lemma RepoKeyValidator_rejects_iff:
  "(RepoKeyValidator v k \<noteq> []) =
     (leading_digit v \<or> (\<exists>c \<in> set v. c \<in> set special_characters))"
  by (simp add: RepoKeyValidator_def All_validators_def StringDoesNotMatch_def
      StringDoesNotContainAny_def ContainsAny_def list_ex_iff)

text \<open>
  C4. The validator looks at the first character and at the special characters only:
  it accepts the two-character key \<open>ab\<close> and the eighteen-character key
  \<open>libs-release-local\<close>, while it rejects \<open>1ab\<close> and \<open>a b\<close>.
\<close>

theorem RepoKeyValidator_ignores_length:
  "RepoKeyValidator ''ab'' ''key'' = [] \<and> length ''ab'' < 3 \<and>
   RepoKeyValidator ''libs-release-local'' ''key'' = [] \<and> 10 < length ''libs-release-local'' \<and>
   RepoKeyValidator ''1ab'' ''key'' \<noteq> [] \<and> RepoKeyValidator ''a b'' ''key'' \<noteq> []"
  by (simp add: RepoKeyValidator_def All_validators_def StringDoesNotMatch_def
      StringDoesNotContainAny_def ContainsAny_def leading_digit_def special_characters_def)

section \<open>Create: a declaration that does not unpack\<close>

text \<open>
  C5. When Unpack returns an error on the declaration, Create returns that error at
  once: no request is added to the calls issued, and the resource data, its identity
  included, is what it was.
\<close>

theorem MkRepoCreate_unpack_error:
  assumes "snd (snd (unpack d)) = Some err"
  shows "MkRepoCreate unpack read d m tr = (Some err, d, tr)"
  using assms by (cases "unpack d") (simp add: MkRepoCreate_def)

theorem MkRepoCreate_unpack_error_witness:
  "snd (snd (failing_unpack (sample_data [] []))) = Some ''unsupported package type'' \<and>
   MkRepoCreate failing_unpack (MkRepoRead sample_pack sample_construct)
      (sample_data [] []) (sample_meta ok_client) []
     = (Some ''unsupported package type'', sample_data [] [], [])"
proof -
  have u: "snd (snd (failing_unpack (sample_data [] []))) = Some ''unsupported package type''"
    by (simp add: failing_unpack_def)
  from u MkRepoCreate_unpack_error
    [where unpack = failing_unpack and d = "sample_data [] []", OF u]
  show ?thesis by simp
qed

section \<open>Project environments\<close>

lemma check_environments_error_iff:
  "(check_environments envs \<noteq> None) = (\<exists>e \<in> set envs. e \<notin> {''DEV'', ''PROD''})"
  by (induction envs) (auto simp add: ProjectEnvironmentsSupported_def)

text \<open>
  The claim that an error comes exactly in the two cases (a) and (b) fails: a server
  version that does not parse is an error for the one-element set \<open>DEV\<close>, which is in
  neither case.
\<close>

theorem ProjectEnvironmentsDiff_counterexample:
  "sample_CheckVersion ''latest'' ''7.53.1'' = (False, Some ''could not parse version latest'') \<and>
   length [''DEV''] = 1 \<and> ''DEV'' \<in> {''DEV'', ''PROD''} \<and>
   ProjectEnvironmentsDiff sample_CheckVersion (sample_diff [''DEV''])
      ((sample_meta ok_client)\<lparr>ArtifactoryVersion := ''latest''\<rparr>)
     = Some ''Failed to check version could not parse version latest''"
  by (simp add: ProjectEnvironmentsDiff_def GetOk_set_def sample_CheckVersion_def
      sample_diff_def sample_meta_def CustomProjectEnvironmentSupportedVersion_def)

text \<open>
  C6, as the code has it. For a non-empty set of project environments that the schema
  admits (at most two elements), the function returns an error exactly when the version
  check itself fails, or (a) the server version is at or after 7.53.1 and the set has
  more than one element, or (b) the server version is before 7.53.1 and some element is
  neither \<open>DEV\<close> nor \<open>PROD\<close>. The function only reads the diff and returns the error:
  there is nothing it could change.
\<close>

theorem ProjectEnvironmentsDiff_error_iff:
  assumes s: "Sets diff ''project_environments'' = Some envs" and ne: "envs \<noteq> []"
      and mx: "length envs \<le> project_environments_MaxItems"
      and cv: "CheckVersion (ArtifactoryVersion meta) ''7.53.1'' = (isSupported, cerr)"
  shows "(ProjectEnvironmentsDiff CheckVersion diff meta \<noteq> None) =
           (cerr \<noteq> None \<or>
            (cerr = None \<and> isSupported \<and> 1 < length envs) \<or>
            (cerr = None \<and> \<not> isSupported \<and> (\<exists>e \<in> set envs. e \<notin> {''DEV'', ''PROD''})))"
proof (cases cerr)
  case (Some e)
  with s ne cv show ?thesis
    by (simp add: ProjectEnvironmentsDiff_def GetOk_set_def
        CustomProjectEnvironmentSupportedVersion_def)
next
  case None
  show ?thesis
  proof (cases isSupported)
    case True
    from mx have "(length envs = 2) = (1 < length envs)"
      by (auto simp add: project_environments_MaxItems_def)
    with True None s ne cv show ?thesis
      by (simp add: ProjectEnvironmentsDiff_def GetOk_set_def
          CustomProjectEnvironmentSupportedVersion_def)
  next
    case False
    with None s ne cv
    have "ProjectEnvironmentsDiff CheckVersion diff meta = check_environments envs"
      by (simp add: ProjectEnvironmentsDiff_def GetOk_set_def
          CustomProjectEnvironmentSupportedVersion_def)
    with None False show ?thesis
      using check_environments_error_iff [of envs] by simp
  qed
qed

theorem ProjectEnvironmentsDiff_error_iff_witness:
  "Sets (sample_diff [''DEV'', ''PROD'']) ''project_environments'' = Some [''DEV'', ''PROD''] \<and>
   [''DEV'', ''PROD''] \<noteq> [] \<and>
   length [''DEV'', ''PROD''] \<le> project_environments_MaxItems \<and>
   sample_CheckVersion (ArtifactoryVersion (sample_meta ok_client)) ''7.53.1'' = (False, None) \<and>
   sample_CheckVersion
      (ArtifactoryVersion ((sample_meta ok_client)\<lparr>ArtifactoryVersion := ''7.59.9''\<rparr>)) ''7.53.1''
     = (True, None) \<and>
   sample_CheckVersion
      (ArtifactoryVersion ((sample_meta ok_client)\<lparr>ArtifactoryVersion := ''latest''\<rparr>)) ''7.53.1''
     = (False, Some ''could not parse version latest'') \<and>
   ProjectEnvironmentsDiff sample_CheckVersion (sample_diff [''DEV'', ''PROD''])
      (sample_meta ok_client) = None \<and>
   ProjectEnvironmentsDiff sample_CheckVersion (sample_diff [''DEV'', ''PROD''])
      ((sample_meta ok_client)\<lparr>ArtifactoryVersion := ''7.59.9''\<rparr>) \<noteq> None \<and>
   ProjectEnvironmentsDiff sample_CheckVersion (sample_diff [''DEV'', ''PROD''])
      ((sample_meta ok_client)\<lparr>ArtifactoryVersion := ''latest''\<rparr>) \<noteq> None \<and>
   ProjectEnvironmentsDiff sample_CheckVersion (sample_diff [''QA''])
      (sample_meta ok_client) \<noteq> None \<and>
   ProjectEnvironmentsDiff sample_CheckVersion (sample_diff [''QA''])
      ((sample_meta ok_client)\<lparr>ArtifactoryVersion := ''7.59.9''\<rparr>) = None"
proof -
  have s: "Sets (sample_diff xs) ''project_environments'' = Some xs" for xs
    by (simp add: sample_diff_def)
  have ne: "[''DEV'', ''PROD''] \<noteq> []" "[''QA''] \<noteq> []" by simp_all
  have mx: "length [''DEV'', ''PROD''] \<le> project_environments_MaxItems"
    "length [''QA''] \<le> project_environments_MaxItems"
    by (simp_all add: project_environments_MaxItems_def)
  have old: "sample_CheckVersion (ArtifactoryVersion (sample_meta ok_client)) ''7.53.1'' = (False, None)"
    by (simp add: sample_CheckVersion_def sample_meta_def)
  have new: "sample_CheckVersion
      (ArtifactoryVersion ((sample_meta ok_client)\<lparr>ArtifactoryVersion := ''7.59.9''\<rparr>)) ''7.53.1''
     = (True, None)"
    by (simp add: sample_CheckVersion_def)
  have bad: "sample_CheckVersion
      (ArtifactoryVersion ((sample_meta ok_client)\<lparr>ArtifactoryVersion := ''latest''\<rparr>)) ''7.53.1''
     = (False, Some ''could not parse version latest'')"
    by (simp add: sample_CheckVersion_def)
  note t = ProjectEnvironmentsDiff_error_iff [where CheckVersion = sample_CheckVersion]
  from t [where meta = "sample_meta ok_client", OF s ne(1) mx(1) old]
  have 1: "ProjectEnvironmentsDiff sample_CheckVersion (sample_diff [''DEV'', ''PROD''])
      (sample_meta ok_client) = None"
    by simp
  from t [where meta = "(sample_meta ok_client)\<lparr>ArtifactoryVersion := ''7.59.9''\<rparr>",
          OF s ne(1) mx(1) new]
  have 2: "ProjectEnvironmentsDiff sample_CheckVersion (sample_diff [''DEV'', ''PROD''])
      ((sample_meta ok_client)\<lparr>ArtifactoryVersion := ''7.59.9''\<rparr>) \<noteq> None"
    by simp
  from t [where meta = "(sample_meta ok_client)\<lparr>ArtifactoryVersion := ''latest''\<rparr>",
          OF s ne(1) mx(1) bad]
  have 3: "ProjectEnvironmentsDiff sample_CheckVersion (sample_diff [''DEV'', ''PROD''])
      ((sample_meta ok_client)\<lparr>ArtifactoryVersion := ''latest''\<rparr>) \<noteq> None"
    by simp
  from t [where meta = "sample_meta ok_client", OF s ne(2) mx(2) old]
  have 4: "ProjectEnvironmentsDiff sample_CheckVersion (sample_diff [''QA''])
      (sample_meta ok_client) \<noteq> None"
    by simp
  from t [where meta = "(sample_meta ok_client)\<lparr>ArtifactoryVersion := ''7.59.9''\<rparr>",
          OF s ne(2) mx(2) new]
  have 5: "ProjectEnvironmentsDiff sample_CheckVersion (sample_diff [''QA''])
      ((sample_meta ok_client)\<lparr>ArtifactoryVersion := ''7.59.9''\<rparr>) = None"
    by simp
  from s [of "[''DEV'', ''PROD'']"] ne(1) mx(1) old new bad 1 2 3 4 5
  show ?thesis by (intro conjI)
qed

text \<open>
  C10. When \<open>project_environments\<close> is not set in the diff, the function returns no
  error, whatever the server version and the version check. When the server version is
  at or after 7.53.1, it returns an error exactly for the sets of two elements; so a set
  of one element is accepted, whatever the element.
\<close>

theorem ProjectEnvironmentsDiff_unset_or_supported:
  "(Sets diff ''project_environments'' = None \<longrightarrow>
      ProjectEnvironmentsDiff CheckVersion diff meta = None) \<and>
   (Sets diff' ''project_environments'' = Some envs \<and>
    CheckVersion' (ArtifactoryVersion meta') ''7.53.1'' = (True, None) \<longrightarrow>
      (ProjectEnvironmentsDiff CheckVersion' diff' meta' \<noteq> None) = (length envs = 2) \<and>
      (\<forall>e. envs = [e] \<longrightarrow> ProjectEnvironmentsDiff CheckVersion' diff' meta' = None))"
  by (auto simp add: ProjectEnvironmentsDiff_def GetOk_set_def
      CustomProjectEnvironmentSupportedVersion_def)

theorem ProjectEnvironmentsDiff_unset_or_supported_witness:
  "Sets \<lparr>Sets = Map.empty\<rparr> ''project_environments'' = None \<and>
   ProjectEnvironmentsDiff sample_CheckVersion \<lparr>Sets = Map.empty\<rparr>
      ((sample_meta ok_client)\<lparr>ArtifactoryVersion := ''latest''\<rparr>) = None \<and>
   Sets (sample_diff [''staging'']) ''project_environments'' = Some [''staging''] \<and>
   sample_CheckVersion
      (ArtifactoryVersion ((sample_meta ok_client)\<lparr>ArtifactoryVersion := ''7.59.9''\<rparr>)) ''7.53.1''
     = (True, None) \<and>
   ProjectEnvironmentsDiff sample_CheckVersion (sample_diff [''staging''])
      ((sample_meta ok_client)\<lparr>ArtifactoryVersion := ''7.59.9''\<rparr>) = None"
  using ProjectEnvironmentsDiff_unset_or_supported
    [of "\<lparr>Sets = Map.empty\<rparr>" sample_CheckVersion
        "(sample_meta ok_client)\<lparr>ArtifactoryVersion := ''latest''\<rparr>"
        "sample_diff [''staging'']" "[''staging'']" sample_CheckVersion
        "(sample_meta ok_client)\<lparr>ArtifactoryVersion := ''7.59.9''\<rparr>"]
  by (simp add: sample_diff_def sample_CheckVersion_def)

section \<open>Delete: the resource is already gone\<close>

text \<open>
  C7. Take a Delete whose DELETE call returns an error. When the error comes with a
  response of status 400 or 404, Delete sets the identity to the empty string and
  returns no error; every other error is returned to the caller, and the resource data
  stays as it was.
\<close>

theorem DeleteRepo_absent_or_error:
  assumes rep: "Client m tr (delete_request (Id d)) = (resp, Some err)"
  shows "DeleteRepo d m tr =
           (if absent resp
            then (None, d\<lparr>Id := []\<rparr>, tr @ [delete_request (Id d)])
            else (Some err, d, tr @ [delete_request (Id d)]))"
proof (cases resp)
  case None
  with rep show ?thesis
    by (simp add: DeleteRepo_def execute_def absent_def)
next
  case (Some r)
  with rep show ?thesis
    by (simp add: DeleteRepo_def execute_def absent_def SetId_def
        StatusBadRequest_def StatusNotFound_def)
qed

theorem DeleteRepo_absent_or_error_witness:
  "Client (sample_meta (failing_client DELETE 400)) [] (delete_request (Id (sample_data [] [])))
     = (Some \<lparr>StatusCode = 400, Result = None\<rparr>, Some ''request failed'') \<and>
   DeleteRepo (sample_data [] []) (sample_meta (failing_client DELETE 400)) []
     = (None, (sample_data [] [])\<lparr>Id := []\<rparr>, [delete_request ''libs-local'']) \<and>
   DeleteRepo (sample_data [] []) (sample_meta (failing_client DELETE 404)) []
     = (None, (sample_data [] [])\<lparr>Id := []\<rparr>, [delete_request ''libs-local'']) \<and>
   DeleteRepo (sample_data [] []) (sample_meta (failing_client DELETE 409)) []
     = (Some ''request failed'', sample_data [] [], [delete_request ''libs-local''])"
proof -
  have r: "Client (sample_meta (failing_client DELETE s)) [] (delete_request (Id (sample_data [] [])))
     = (Some \<lparr>StatusCode = s, Result = None\<rparr>, Some ''request failed'')" for s
    by (simp add: sample_meta_def failing_client_def delete_request_def error_reply_def)
  have i: "Id (sample_data [] []) = ''libs-local''"
    by (simp add: sample_data_def)
  show ?thesis
    using r [of 400]
      DeleteRepo_absent_or_error
        [where tr = "[]" and d = "sample_data [] []"
           and m = "sample_meta (failing_client DELETE 400)", OF r [of 400]]
      DeleteRepo_absent_or_error
        [where tr = "[]" and d = "sample_data [] []"
           and m = "sample_meta (failing_client DELETE 404)", OF r [of 404]]
      DeleteRepo_absent_or_error
        [where tr = "[]" and d = "sample_data [] []"
           and m = "sample_meta (failing_client DELETE 409)", OF r [of 409]]
    by (simp add: absent_def i)
qed

section \<open>Default repository layout\<close>

text \<open>
  C8. The lookup takes the table and the two types and nothing else: no client, no
  calls. For a package type the table has, whose entry marks the repository type as
  supported, it returns the layout of that entry. For every other pair it returns an
  error, and the message holds both the repository type and the package type.
\<close>

theorem GetDefaultRepoLayoutRef_lookup:
  "(defaultRepoLayoutMap packageType = Some c \<and> SupportedRepoTypes c repositoryType = Some True \<longrightarrow>
      GetDefaultRepoLayoutRef defaultRepoLayoutMap repositoryType packageType () = Inr (RepoLayoutRef c)) \<and>
   (\<not> (\<exists>c. defaultRepoLayoutMap' packageType' = Some c \<and>
            SupportedRepoTypes c repositoryType' = Some True) \<longrightarrow>
      (\<exists>msg. GetDefaultRepoLayoutRef defaultRepoLayoutMap' repositoryType' packageType' () = Inl msg \<and>
             sublist repositoryType' msg \<and> sublist packageType' msg))"
proof (intro conjI impI)
  assume "defaultRepoLayoutMap packageType = Some c \<and> SupportedRepoTypes c repositoryType = Some True"
  then show "GetDefaultRepoLayoutRef defaultRepoLayoutMap repositoryType packageType () = Inr (RepoLayoutRef c)"
    by (simp add: GetDefaultRepoLayoutRef_def)
next
  let ?msg = "''default repo layout not found for repository type '' @ repositoryType' @
              '' & package type '' @ packageType'"
  assume un: "\<not> (\<exists>c. defaultRepoLayoutMap' packageType' = Some c \<and>
            SupportedRepoTypes c repositoryType' = Some True)"
  have "GetDefaultRepoLayoutRef defaultRepoLayoutMap' repositoryType' packageType' () = Inl ?msg"
  proof (cases "defaultRepoLayoutMap' packageType'")
    case None
    then show ?thesis
      by (simp add: GetDefaultRepoLayoutRef_def zero_SupportedRepoClasses_def)
  next
    case (Some c)
    with un have "SupportedRepoTypes c repositoryType' \<noteq> Some True" by simp
    with Some show ?thesis
      by (simp add: GetDefaultRepoLayoutRef_def split: option.splits bool.splits)
  qed
  moreover have "sublist repositoryType' ?msg"
    by (rule sublist_appendI)
  moreover have "sublist packageType' ?msg"
    using sublist_appendI [of packageType' 
        "''default repo layout not found for repository type '' @ repositoryType' @ '' & package type ''" "[]"]
    by simp
  ultimately show "\<exists>msg. GetDefaultRepoLayoutRef defaultRepoLayoutMap' repositoryType' packageType' () = Inl msg \<and>
             sublist repositoryType' msg \<and> sublist packageType' msg"
    by blast
qed

theorem GetDefaultRepoLayoutRef_lookup_witness:
  "sample_layouts ''maven'' = Some \<lparr>RepoLayoutRef = ''maven-2-default'',
        SupportedRepoTypes = [''local'' \<mapsto> True, ''remote'' \<mapsto> True]\<rparr> \<and>
   GetDefaultRepoLayoutRef sample_layouts ''local'' ''maven'' () = Inr ''maven-2-default'' \<and>
   (\<exists>msg. GetDefaultRepoLayoutRef sample_layouts ''federated'' ''npm'' () = Inl msg \<and>
          sublist ''federated'' msg \<and> sublist ''npm'' msg)"
  using GetDefaultRepoLayoutRef_lookup
    [of sample_layouts "''maven''"
        "\<lparr>RepoLayoutRef = ''maven-2-default'',
          SupportedRepoTypes = [''local'' \<mapsto> True, ''remote'' \<mapsto> True]\<rparr>"
        "''local''" sample_layouts "''npm''" "''federated''"]
  by (simp add: sample_layouts_def)

section \<open>Resetting a field\<close>




end
